theory Spec2Isabelle
  imports Complex_Main "HOL-Library.AList"
begin

section \<open>The trade ledger of \<^verbatim>\<open>src/modules/trade_manager.py\<close>\<close>

text \<open>
  The ledger is the class \<^verbatim>\<open>TradeManager\<close>: a dictionary of trades, a dictionary of
  positions and a cash balance. Python's \<^verbatim>\<open>float\<close> is read as \<^typ>\<open>real\<close> here, which
  is what the code computes on values that stay exact; the infinities and NaN of an
  overflow have a section of their own below. A dictionary is an association list
  with distinct keys, in insertion order; assigning to a key that is present replaces the
  value in place and assigning to a new key appends it, which is \<^const>\<open>AList.update\<close>.
\<close>

subsection \<open>Data model\<close>

datatype TradeType = BUY | SELL

datatype TradeStatus = PENDING | EXECUTED | CANCELLED

text \<open>The \<^verbatim>\<open>.value\<close> of the enum \<^verbatim>\<open>TradeType\<close>.\<close>

fun TradeType_value :: "TradeType \<Rightarrow> string" where
  "TradeType_value BUY = ''buy''"
| "TradeType_value SELL = ''sell''"

text \<open>
  A \<^verbatim>\<open>datetime\<close> is a count of microseconds. The fields of the two dataclasses carry a
  prefix, since both classes have a \<^verbatim>\<open>symbol\<close> and a \<^verbatim>\<open>quantity\<close>.
\<close>

type_synonym datetime = int

record Trade =
  t_id :: string
  t_symbol :: string
  t_trade_type :: TradeType
  t_quantity :: real
  t_price :: real
  t_timestamp :: datetime
  t_status :: TradeStatus

record Position =
  p_symbol :: string
  p_quantity :: real
  p_avg_price :: real
  p_market_value :: real

record TradeManager =
  trades :: "(string \<times> Trade) list"
  positions :: "(string \<times> Position) list"
  balance :: real

text \<open>\<^verbatim>\<open>TradeManager.__init__\<close>: no trades, no positions, balance 0.\<close>

definition init :: TradeManager where
  "init = \<lparr>trades = [], positions = [], balance = 0\<rparr>"

subsection \<open>Operations\<close>

text \<open>\<^verbatim>\<open>add_funds\<close>: only a positive amount is added.\<close>

definition add_funds :: "real \<Rightarrow> TradeManager \<Rightarrow> TradeManager" where
  "add_funds amount s = (if amount > 0 then s\<lparr>balance := balance s + amount\<rparr> else s)"

text \<open>
  \<^verbatim>\<open>place_trade\<close> reads the clock twice. The first reading enters the id through the
  f-string, so it is taken as the text the f-string renders for
  \<^verbatim>\<open>datetime.now().timestamp()\<close> (\<open>now_text\<close>); the second reading (\<open>now\<close>) is
  stored in the trade. The function has no check on its arguments and always returns
  the id.
\<close>

definition place_trade ::
  "string \<Rightarrow> TradeType \<Rightarrow> real \<Rightarrow> real \<Rightarrow> string \<Rightarrow> datetime \<Rightarrow> TradeManager
    \<Rightarrow> string \<times> TradeManager" where
  "place_trade symbol trade_type quantity price now_text now s =
    (let trade_id = symbol @ ''_'' @ TradeType_value trade_type @ ''_'' @ now_text;
         trade = \<lparr>t_id = trade_id, t_symbol = symbol, t_trade_type = trade_type,
                  t_quantity = quantity, t_price = price, t_timestamp = now,
                  t_status = PENDING\<rparr>
     in (trade_id, s\<lparr>trades := AList.update trade_id trade (trades s)\<rparr>))"

text \<open>
  \<^verbatim>\<open>_update_position\<close>. The arithmetic on the position object is
  \<open>update_position_record\<close>; \<open>update_position\<close> creates the position when the symbol
  has none and stores the result.
\<close>

definition update_position_record :: "Position \<Rightarrow> real \<Rightarrow> real \<Rightarrow> Position" where
  "update_position_record pos quantity price =
    (let pos1 =
       (if p_quantity pos = 0 then pos\<lparr>p_quantity := quantity, p_avg_price := price\<rparr>
        else
          (let total_value = p_quantity pos * p_avg_price pos + quantity * price;
               q = p_quantity pos + quantity
           in pos\<lparr>p_quantity := q,
                   p_avg_price := (if q \<noteq> 0 then total_value / q else 0)\<rparr>))
     in pos1\<lparr>p_market_value := p_quantity pos1 * price\<rparr>)"

definition update_position :: "string \<Rightarrow> real \<Rightarrow> real \<Rightarrow> TradeManager \<Rightarrow> TradeManager" where
  "update_position symbol quantity price s =
    (let pos = (case map_of (positions s) symbol of
                  None \<Rightarrow> \<lparr>p_symbol = symbol, p_quantity = 0, p_avg_price = 0,
                            p_market_value = 0\<rparr>
                | Some p \<Rightarrow> p)
     in s\<lparr>positions :=
           AList.update symbol (update_position_record pos quantity price) (positions s)\<rparr>)"

text \<open>\<^verbatim>\<open>_has_sufficient_position\<close>.\<close>

definition has_sufficient_position :: "string \<Rightarrow> real \<Rightarrow> TradeManager \<Rightarrow> bool" where
  "has_sufficient_position symbol quantity s =
    (case map_of (positions s) symbol of
       None \<Rightarrow> False
     | Some pos \<Rightarrow> p_quantity pos \<ge> quantity)"

text \<open>
  Python's \<^verbatim>\<open>execution_price or trade.price\<close>: the left operand when it is truthy,
  else the right one. \<^verbatim>\<open>None\<close> and \<^verbatim>\<open>0.0\<close> are the falsy values of an
  \<^verbatim>\<open>Optional[float]\<close>.
\<close>

definition price_or :: "real option \<Rightarrow> real \<Rightarrow> real" where
  "price_or execution_price trade_price =
    (case execution_price of
       None \<Rightarrow> trade_price
     | Some p \<Rightarrow> if p = 0 then trade_price else p)"

text \<open>
  \<^verbatim>\<open>execute_trade\<close>. The local \<^verbatim>\<open>trade\<close> is the object stored in the dictionary, so
  the two assignments at the end write into the dictionary entry.
\<close>

definition execute_trade ::
  "string \<Rightarrow> real option \<Rightarrow> TradeManager \<Rightarrow> bool \<times> TradeManager" where
  "execute_trade trade_id execution_price s =
    (case map_of (trades s) trade_id of
       None \<Rightarrow> (False, s)
     | Some trade \<Rightarrow>
         if t_status trade \<noteq> PENDING then (False, s)
         else
           (let exec_price = price_or execution_price (t_price trade);
                total_cost = exec_price * t_quantity trade;
                commit = (\<lambda>s'. (True, s'\<lparr>trades :=
                          AList.update trade_id
                            (trade\<lparr>t_status := EXECUTED, t_price := exec_price\<rparr>)
                            (trades s')\<rparr>))
            in if t_trade_type trade = BUY then
                 (if balance s < total_cost then (False, s)
                  else commit (update_position (t_symbol trade) (t_quantity trade) exec_price
                               (s\<lparr>balance := balance s - total_cost\<rparr>)))
               else
                 (if \<not> has_sufficient_position (t_symbol trade) (t_quantity trade) s
                  then (False, s)
                  else commit (update_position (t_symbol trade) (- t_quantity trade) exec_price
                               (s\<lparr>balance := balance s + total_cost\<rparr>)))))"

text \<open>\<^verbatim>\<open>cancel_trade\<close>.\<close>

definition cancel_trade :: "string \<Rightarrow> TradeManager \<Rightarrow> bool \<times> TradeManager" where
  "cancel_trade trade_id s =
    (case map_of (trades s) trade_id of
       None \<Rightarrow> (False, s)
     | Some trade \<Rightarrow>
         if t_status trade = PENDING
         then (True, s\<lparr>trades :=
                 AList.update trade_id (trade\<lparr>t_status := CANCELLED\<rparr>) (trades s)\<rparr>)
         else (False, s))"

text \<open>\<^verbatim>\<open>get_position\<close> and \<^verbatim>\<open>get_trade_history\<close> (a stable sort, newest first).\<close>

definition get_position :: "string \<Rightarrow> TradeManager \<Rightarrow> Position option" where
  "get_position symbol s = map_of (positions s) symbol"

definition get_trade_history :: "TradeManager \<Rightarrow> Trade list" where
  "get_trade_history s = sort_key (\<lambda>t. - t_timestamp t) (map snd (trades s))"

subsection \<open>Sequences of calls\<close>

text \<open>
  A client of the ledger calls \<^verbatim>\<open>add_funds\<close>, \<^verbatim>\<open>place_trade\<close>, \<^verbatim>\<open>execute_trade\<close> and
  \<^verbatim>\<open>cancel_trade\<close> in some order. \<open>run\<close> applies a list of calls from left to right
  and keeps the state; the return values are dropped.
\<close>

datatype call =
    AddFunds real
  | RecordOrder string TradeType real real string datetime
  | Settle string "real option"
  | Cancel string

fun apply_call :: "call \<Rightarrow> TradeManager \<Rightarrow> TradeManager" where
  "apply_call (AddFunds amount) s = add_funds amount s"
| "apply_call (RecordOrder symbol trade_type quantity price now_text now) s =
     snd (place_trade symbol trade_type quantity price now_text now s)"
| "apply_call (Settle trade_id execution_price) s = snd (execute_trade trade_id execution_price s)"
| "apply_call (Cancel trade_id) s = snd (cancel_trade trade_id s)"

fun run :: "call list \<Rightarrow> TradeManager \<Rightarrow> TradeManager" where
  "run [] s = s"
| "run (c # cs) s = run cs (apply_call c s)"

text \<open>The calls that only settle or cancel.\<close>

fun settle_or_cancel :: "call \<Rightarrow> bool" where
  "settle_or_cancel (Settle trade_id execution_price) = True"
| "settle_or_cancel (Cancel trade_id) = True"
| "settle_or_cancel c = False"

text \<open>
  The calls whose quantities are positive and whose prices are not negative: the
  quantity and the price of an order, and the price passed to a settlement.
\<close>

fun call_ok :: "call \<Rightarrow> bool" where
  "call_ok (RecordOrder symbol trade_type quantity price now_text now) =
     (0 < quantity \<and> 0 \<le> price)"
| "call_ok (Settle trade_id (Some p)) = (0 \<le> p)"
| "call_ok c = True"

text \<open>The status of a trade, when the id is known.\<close>

definition status_of :: "string \<Rightarrow> TradeManager \<Rightarrow> TradeStatus option" where
  "status_of trade_id s = map_option t_status (map_of (trades s) trade_id)"

text \<open>The number of calls of a run at which the status of a trade changes.\<close>

fun transitions :: "string \<Rightarrow> call list \<Rightarrow> TradeManager \<Rightarrow> nat" where
  "transitions trade_id [] s = 0"
| "transitions trade_id (c # cs) s =
     (if status_of trade_id (apply_call c s) \<noteq> status_of trade_id s then 1 else 0)
      + transitions trade_id cs (apply_call c s)"

text \<open>
  The signed sum of the quantities of the executed trades on a symbol: a buy counts
  with its quantity, a sell with its negation.
\<close>

definition signed_quantity :: "Trade \<Rightarrow> real" where
  "signed_quantity t = (if t_trade_type t = BUY then t_quantity t else - t_quantity t)"

definition executed_on :: "string \<Rightarrow> Trade \<Rightarrow> bool" where
  "executed_on symbol t = (t_symbol t = symbol \<and> t_status t = EXECUTED)"

definition executed_quantity :: "string \<Rightarrow> TradeManager \<Rightarrow> real" where
  "executed_quantity symbol s =
     sum_list (map signed_quantity (filter (executed_on symbol) (map snd (trades s))))"

text \<open>
  A run issues fresh ids when every \<^verbatim>\<open>place_trade\<close> call in it builds an id that the
  dictionary does not hold yet.
\<close>

fun fresh_ids :: "call list \<Rightarrow> TradeManager \<Rightarrow> bool" where
  "fresh_ids [] s = True"
| "fresh_ids (RecordOrder symbol trade_type quantity price now_text now # cs) s =
     (map_of (trades s)
        (fst (place_trade symbol trade_type quantity price now_text now s)) = None
      \<and> fresh_ids cs
          (apply_call (RecordOrder symbol trade_type quantity price now_text now) s))"
| "fresh_ids (c # cs) s = fresh_ids cs (apply_call c s)"

text \<open>
  The position of a symbol matches the executed trades: its quantity is their signed sum,
  and a symbol without a position has no executed trade.
\<close>

definition positions_match :: "string \<Rightarrow> TradeManager \<Rightarrow> bool" where
  "positions_match symbol s =
     (case get_position symbol s of
        None \<Rightarrow> filter (executed_on symbol) (map snd (trades s)) = []
      | Some pos \<Rightarrow> p_quantity pos = executed_quantity symbol s)"

text \<open>
  The ledger is in order when the balance and every held quantity are not negative and
  every recorded trade has a positive quantity and a price that is not negative.
\<close>

definition ledger_ok :: "TradeManager \<Rightarrow> bool" where
  "ledger_ok s =
     (0 \<le> balance s
      \<and> list_all (\<lambda>p. 0 \<le> p_quantity p) (map snd (positions s))
      \<and> list_all (\<lambda>t. 0 < t_quantity t \<and> 0 \<le> t_price t) (map snd (trades s)))"

section \<open>The feed listener of \<^verbatim>\<open>main.py\<close>\<close>

text \<open>
  \<^verbatim>\<open>AppManager.start_websocket_listener\<close> evaluates, inside \<^verbatim>\<open>try\<close>,
  \<^verbatim>\<open>self.pump_portal_client.listen_for_trades\<close> and then
  \<^verbatim>\<open>self.trade_manager.process_realtime_trade\<close>, and calls the first with the second.
  An attribute lookup raises \<^verbatim>\<open>AttributeError\<close> when neither the instance nor its class
  has the name; \<^verbatim>\<open>except Exception\<close> catches it and logs it. The two lists are the names
  that \<^verbatim>\<open>__init__\<close> sets and the methods that the class body defines, for
  \<^verbatim>\<open>PumpPortalClient\<close> (\<^verbatim>\<open>pump_portal_client.py\<close>) and \<^verbatim>\<open>TradeManager\<close>
  (\<^verbatim>\<open>trade_manager.py\<close>).
\<close>

datatype error = AttributeError string string

definition PumpPortalClient_attributes :: "string list" where
  "PumpPortalClient_attributes =
     [''api_key'', ''base_url'', ''session'', ''__init__'', ''create_token'', ''get_token_info'',
      ''get_launch_status'', ''update_token_metadata'', ''get_portfolio'', ''close'',
      ''__enter__'', ''__exit__'']"

definition TradeManager_attributes :: "string list" where
  "TradeManager_attributes =
     [''solana_client'', ''pump_portal_client'', ''db_manager'', ''ai_client'',
      ''social_media_manager'', ''trades'', ''positions'', ''balance'', ''__init__'', ''add_funds'',
      ''place_trade'', ''execute_trade'', ''cancel_trade'', ''get_position'',
      ''get_all_positions'', ''get_trade_history'', ''get_portfolio_value'',
      ''_update_position'', ''_has_sufficient_position'']"

definition getattr :: "string \<Rightarrow> string list \<Rightarrow> string \<Rightarrow> error + unit" where
  "getattr class_name attributes name =
     (if name \<in> set attributes then Inr () else Inl (AttributeError class_name name))"

record AppManager =
  trade_manager :: TradeManager
  error_log :: "error list"

text \<open>
  \<open>listen\<close> is the call that would run the feed against the ledger if both lookups
  succeeded; it is a parameter, since no file of the repository defines either method.
\<close>

definition start_websocket_listener :: "(AppManager \<Rightarrow> AppManager) \<Rightarrow> AppManager \<Rightarrow> AppManager" where
  "start_websocket_listener listen app =
     (case getattr ''PumpPortalClient'' PumpPortalClient_attributes ''listen_for_trades'' of
        Inl e \<Rightarrow> app\<lparr>error_log := error_log app @ [e]\<rparr>
      | Inr u \<Rightarrow>
         (case getattr ''TradeManager'' TradeManager_attributes ''process_realtime_trade'' of
            Inl e \<Rightarrow> app\<lparr>error_log := error_log app @ [e]\<rparr>
          | Inr v \<Rightarrow> listen app))"

section \<open>The ledger on floating-point numbers\<close>

text \<open>
  The definitions above read \<^verbatim>\<open>float\<close> as \<^typ>\<open>real\<close>, which is what the code computes
  as long as every value is exact. Beyond the largest binary64 number a sum or a product
  is infinite, and \<^verbatim>\<open>inf - inf\<close> is NaN. \<open>pyfloat\<close> carries these values: a finite float
  is the real it denotes, and an operation on finite floats returns infinity when the
  exact result reaches \<open>2^1024 - 2^970\<close> in magnitude, the point from which binary64 rounds
  to infinity. The rounding of finite results and the sign of zero are not represented: a
  finite result is kept exact. Every comparison with NaN is false.
\<close>

datatype pyfloat = Finite real | PosInf | NegInf | NaN

definition to_float :: "real \<Rightarrow> pyfloat" where
  "to_float r =
     (if 2 ^ 1024 - 2 ^ 970 \<le> r then PosInf
      else if r \<le> - (2 ^ 1024 - 2 ^ 970) then NegInf
      else Finite r)"

fun fneg :: "pyfloat \<Rightarrow> pyfloat" where
  "fneg (Finite a) = Finite (- a)"
| "fneg PosInf = NegInf"
| "fneg NegInf = PosInf"
| "fneg NaN = NaN"

fun fadd :: "pyfloat \<Rightarrow> pyfloat \<Rightarrow> pyfloat" where
  "fadd NaN y = NaN"
| "fadd x NaN = NaN"
| "fadd (Finite a) (Finite b) = to_float (a + b)"
| "fadd (Finite a) y = y"
| "fadd x (Finite b) = x"
| "fadd x y = (if x = y then x else NaN)"

definition fsub :: "pyfloat \<Rightarrow> pyfloat \<Rightarrow> pyfloat" where
  "fsub x y = fadd x (fneg y)"

fun fmul :: "pyfloat \<Rightarrow> pyfloat \<Rightarrow> pyfloat" where
  "fmul NaN y = NaN"
| "fmul x NaN = NaN"
| "fmul (Finite a) (Finite b) = to_float (a * b)"
| "fmul (Finite a) y =
     (if a = 0 then NaN else if (0 < a) = (y = PosInf) then PosInf else NegInf)"
| "fmul x (Finite b) =
     (if b = 0 then NaN else if (0 < b) = (x = PosInf) then PosInf else NegInf)"
| "fmul x y = (if x = y then PosInf else NegInf)"

text \<open>
  Python raises \<^verbatim>\<open>ZeroDivisionError\<close> on a zero divisor; the code divides only after it
  has checked that the divisor is not zero, and \<open>fdiv\<close> returns NaN there.
\<close>

fun fdiv :: "pyfloat \<Rightarrow> pyfloat \<Rightarrow> pyfloat" where
  "fdiv NaN y = NaN"
| "fdiv x NaN = NaN"
| "fdiv (Finite a) (Finite b) = (if b = 0 then NaN else to_float (a / b))"
| "fdiv (Finite a) y = Finite 0"
| "fdiv x (Finite b) =
     (if b = 0 then NaN else if (0 < b) = (x = PosInf) then PosInf else NegInf)"
| "fdiv x y = NaN"

fun flt :: "pyfloat \<Rightarrow> pyfloat \<Rightarrow> bool" where
  "flt NaN y = False"
| "flt x NaN = False"
| "flt (Finite a) (Finite b) = (a < b)"
| "flt NegInf y = (y \<noteq> NegInf)"
| "flt x PosInf = (x \<noteq> PosInf)"
| "flt x y = False"

definition fge :: "pyfloat \<Rightarrow> pyfloat \<Rightarrow> bool" where
  "fge x y = (x \<noteq> NaN \<and> y \<noteq> NaN \<and> \<not> flt x y)"

text \<open>
  The two dataclasses, the ledger and the operations of \<^verbatim>\<open>trade_manager.py\<close> once more,
  with \<open>pyfloat\<close> where the source has \<^verbatim>\<open>float\<close>. The names carry an \<open>f\<close>.
\<close>

record FTrade =
  ft_id :: string
  ft_symbol :: string
  ft_trade_type :: TradeType
  ft_quantity :: pyfloat
  ft_price :: pyfloat
  ft_timestamp :: datetime
  ft_status :: TradeStatus

record FPosition =
  fp_symbol :: string
  fp_quantity :: pyfloat
  fp_avg_price :: pyfloat
  fp_market_value :: pyfloat

record FTradeManager =
  ftrades :: "(string \<times> FTrade) list"
  fpositions :: "(string \<times> FPosition) list"
  fbalance :: pyfloat

definition finit :: FTradeManager where
  "finit = \<lparr>ftrades = [], fpositions = [], fbalance = Finite 0\<rparr>"

definition fadd_funds :: "pyfloat \<Rightarrow> FTradeManager \<Rightarrow> FTradeManager" where
  "fadd_funds amount s =
     (if flt (Finite 0) amount then s\<lparr>fbalance := fadd (fbalance s) amount\<rparr> else s)"

definition fplace_trade ::
  "string \<Rightarrow> TradeType \<Rightarrow> pyfloat \<Rightarrow> pyfloat \<Rightarrow> string \<Rightarrow> datetime \<Rightarrow> FTradeManager
    \<Rightarrow> string \<times> FTradeManager" where
  "fplace_trade symbol trade_type quantity price now_text now s =
    (let trade_id = symbol @ ''_'' @ TradeType_value trade_type @ ''_'' @ now_text;
         trade = \<lparr>ft_id = trade_id, ft_symbol = symbol, ft_trade_type = trade_type,
                  ft_quantity = quantity, ft_price = price, ft_timestamp = now,
                  ft_status = PENDING\<rparr>
     in (trade_id, s\<lparr>ftrades := AList.update trade_id trade (ftrades s)\<rparr>))"

definition fupdate_position_record :: "FPosition \<Rightarrow> pyfloat \<Rightarrow> pyfloat \<Rightarrow> FPosition" where
  "fupdate_position_record pos quantity price =
    (let pos1 =
       (if fp_quantity pos = Finite 0
        then pos\<lparr>fp_quantity := quantity, fp_avg_price := price\<rparr>
        else
          (let total_value =
                 fadd (fmul (fp_quantity pos) (fp_avg_price pos)) (fmul quantity price);
               q = fadd (fp_quantity pos) quantity
           in pos\<lparr>fp_quantity := q,
                   fp_avg_price := (if q \<noteq> Finite 0 then fdiv total_value q else Finite 0)\<rparr>))
     in pos1\<lparr>fp_market_value := fmul (fp_quantity pos1) price\<rparr>)"

definition fupdate_position ::
  "string \<Rightarrow> pyfloat \<Rightarrow> pyfloat \<Rightarrow> FTradeManager \<Rightarrow> FTradeManager" where
  "fupdate_position symbol quantity price s =
    (let pos = (case map_of (fpositions s) symbol of
                  None \<Rightarrow> \<lparr>fp_symbol = symbol, fp_quantity = Finite 0,
                            fp_avg_price = Finite 0, fp_market_value = Finite 0\<rparr>
                | Some p \<Rightarrow> p)
     in s\<lparr>fpositions :=
           AList.update symbol (fupdate_position_record pos quantity price) (fpositions s)\<rparr>)"

definition fhas_sufficient_position :: "string \<Rightarrow> pyfloat \<Rightarrow> FTradeManager \<Rightarrow> bool" where
  "fhas_sufficient_position symbol quantity s =
    (case map_of (fpositions s) symbol of
       None \<Rightarrow> False
     | Some pos \<Rightarrow> fge (fp_quantity pos) quantity)"

text \<open>NaN and the infinities are truthy; only \<^verbatim>\<open>None\<close> and zero are not.\<close>

definition fprice_or :: "pyfloat option \<Rightarrow> pyfloat \<Rightarrow> pyfloat" where
  "fprice_or execution_price trade_price =
    (case execution_price of
       None \<Rightarrow> trade_price
     | Some p \<Rightarrow> if p = Finite 0 then trade_price else p)"

definition fexecute_trade ::
  "string \<Rightarrow> pyfloat option \<Rightarrow> FTradeManager \<Rightarrow> bool \<times> FTradeManager" where
  "fexecute_trade trade_id execution_price s =
    (case map_of (ftrades s) trade_id of
       None \<Rightarrow> (False, s)
     | Some trade \<Rightarrow>
         if ft_status trade \<noteq> PENDING then (False, s)
         else
           (let exec_price = fprice_or execution_price (ft_price trade);
                total_cost = fmul exec_price (ft_quantity trade);
                commit = (\<lambda>s'. (True, s'\<lparr>ftrades :=
                          AList.update trade_id
                            (trade\<lparr>ft_status := EXECUTED, ft_price := exec_price\<rparr>)
                            (ftrades s')\<rparr>))
            in if ft_trade_type trade = BUY then
                 (if flt (fbalance s) total_cost then (False, s)
                  else commit (fupdate_position (ft_symbol trade) (ft_quantity trade)
                                 exec_price
                                 (s\<lparr>fbalance := fsub (fbalance s) total_cost\<rparr>)))
               else
                 (if \<not> fhas_sufficient_position (ft_symbol trade) (ft_quantity trade) s
                  then (False, s)
                  else commit (fupdate_position (ft_symbol trade) (fneg (ft_quantity trade))
                                 exec_price
                                 (s\<lparr>fbalance := fadd (fbalance s) total_cost\<rparr>)))))"

section \<open>Properties\<close>

subsection \<open>Association lists and the position update\<close>

lemma list_all_update:
  "list_all P (map snd al) \<Longrightarrow> P v \<Longrightarrow> list_all P (map snd (AList.update k v al))"
  by (induction al) auto

lemma list_all_map_of:
  "list_all P (map snd al) \<Longrightarrow> map_of al k = Some v \<Longrightarrow> P v"
  by (induction al) (auto split: if_splits)

lemma trades_update_position [simp]: "trades (update_position symbol q P s) = trades s"
  by (simp add: update_position_def Let_def)

lemma balance_update_position [simp]: "balance (update_position symbol q P s) = balance s"
  by (simp add: update_position_def Let_def)

lemma quantity_update_position_record [simp]:
  "p_quantity (update_position_record pos q P) = p_quantity pos + q"
  by (simp add: update_position_record_def Let_def)

subsection \<open>The status of a trade under settle and cancel\<close>

lemma execute_trade_status:
  "status_of tid (snd (execute_trade tid' px s)) =
     (if tid = tid' \<and> fst (execute_trade tid' px s) then Some EXECUTED else status_of tid s)"
  by (simp add: execute_trade_def status_of_def Let_def update_conv' split: option.splits)

lemma cancel_trade_status:
  "status_of tid (snd (cancel_trade tid' s)) =
     (if tid = tid' \<and> fst (cancel_trade tid' s) then Some CANCELLED else status_of tid s)"
  by (simp add: cancel_trade_def status_of_def update_conv' split: option.splits)

lemma execute_trade_success_pending:
  "fst (execute_trade tid px s) \<Longrightarrow> status_of tid s = Some PENDING"
  by (simp add: execute_trade_def status_of_def Let_def split: option.splits if_splits)

lemma cancel_trade_success_iff:
  "fst (cancel_trade tid s) \<longleftrightarrow> status_of tid s = Some PENDING"
  by (simp add: cancel_trade_def status_of_def split: option.splits)

lemma execute_trade_not_pending:
  "status_of tid s \<noteq> Some PENDING \<Longrightarrow> execute_trade tid px s = (False, s)"
  by (simp add: execute_trade_def status_of_def split: option.splits)

lemma cancel_trade_not_pending:
  "status_of tid s \<noteq> Some PENDING \<Longrightarrow> cancel_trade tid s = (False, s)"
  by (simp add: cancel_trade_def status_of_def split: option.splits)

lemma step_status:
  assumes "settle_or_cancel c"
  shows "status_of tid (apply_call c s) = status_of tid s
    \<or> (status_of tid s = Some PENDING
        \<and> ((\<exists>px. c = Settle tid px \<and> fst (execute_trade tid px s)
               \<and> status_of tid (apply_call c s) = Some EXECUTED)
           \<or> (c = Cancel tid \<and> fst (cancel_trade tid s)
               \<and> status_of tid (apply_call c s) = Some CANCELLED)))"
proof (cases c)
  case (Settle tid' px)
  then show ?thesis
    using execute_trade_success_pending [of tid' px s]
    by (auto simp add: execute_trade_status)
next
  case (Cancel tid')
  then show ?thesis
    by (auto simp add: cancel_trade_status cancel_trade_success_iff)
qed (use assms in simp_all)

lemma run_terminal:
  assumes "status_of tid s \<noteq> Some PENDING" and "list_all settle_or_cancel cs"
  shows "status_of tid (run cs s) = status_of tid s \<and> transitions tid cs s = 0"
  using assms
proof (induction cs arbitrary: s)
  case Nil
  then show ?case by simp
next
  case (Cons c cs)
  from Cons.prems have soc: "settle_or_cancel c" and rest: "list_all settle_or_cancel cs"
    by simp_all
  have same: "status_of tid (apply_call c s) = status_of tid s"
    using step_status [OF soc, of tid s] Cons.prems(1) by auto
  with Cons.IH [of "apply_call c s"] Cons.prems(1) rest show ?case by simp
qed

lemma transitions_le_1:
  assumes "list_all settle_or_cancel cs"
  shows "transitions tid cs s \<le> 1"
  using assms
proof (induction cs arbitrary: s)
  case Nil
  then show ?case by simp
next
  case (Cons c cs)
  from Cons.prems have soc: "settle_or_cancel c" and rest: "list_all settle_or_cancel cs"
    by simp_all
  show ?case
  proof (cases "status_of tid (apply_call c s) = status_of tid s")
    case True
    with Cons.IH [OF rest, of "apply_call c s"] show ?thesis by simp
  next
    case False
    with step_status [OF soc, of tid s]
    have "status_of tid (apply_call c s) \<noteq> Some PENDING" by auto
    from run_terminal [OF this rest] False show ?thesis by simp
  qed
qed

subsection \<open>The ledger stays in order\<close>

lemma positions_update_position_ok:
  assumes "list_all (\<lambda>p. 0 \<le> p_quantity p) (map snd (positions s))"
    and "case map_of (positions s) symbol of None \<Rightarrow> 0 \<le> q
         | Some pos \<Rightarrow> 0 \<le> p_quantity pos + q"
  shows "list_all (\<lambda>p. 0 \<le> p_quantity p) (map snd (positions (update_position symbol q P s)))"
  using assms
  by (auto simp add: update_position_def Let_def intro!: list_all_update split: option.splits)

lemma price_or_nonneg:
  "0 \<le> tp \<Longrightarrow> (case px of None \<Rightarrow> True | Some p \<Rightarrow> 0 \<le> p) \<Longrightarrow> 0 \<le> price_or px tp"
  by (simp add: price_or_def split: option.splits)

lemma ledger_ok_init: "ledger_ok init"
  by (simp add: ledger_ok_def init_def)

lemma ledger_ok_add_funds: "ledger_ok s \<Longrightarrow> ledger_ok (add_funds amount s)"
  by (simp add: ledger_ok_def add_funds_def)

lemma ledger_ok_place_trade:
  "ledger_ok s \<Longrightarrow> 0 < q \<Longrightarrow> 0 \<le> p
    \<Longrightarrow> ledger_ok (snd (place_trade symbol side q p txt now s))"
  by (simp add: ledger_ok_def place_trade_def Let_def list_all_update)

lemma ledger_ok_cancel_trade: "ledger_ok s \<Longrightarrow> ledger_ok (snd (cancel_trade tid s))"
proof (cases "map_of (trades s) tid")
  case None
  assume "ledger_ok s"
  with None show ?thesis by (simp add: cancel_trade_def)
next
  case (Some trade)
  assume ok: "ledger_ok s"
  then have "0 < t_quantity trade \<and> 0 \<le> t_price trade"
    using list_all_map_of [OF _ Some, of "\<lambda>t. 0 < t_quantity t \<and> 0 \<le> t_price t"]
    by (simp add: ledger_ok_def)
  with ok Some show ?thesis
    by (simp add: cancel_trade_def ledger_ok_def list_all_update)
qed

lemma ledger_ok_execute_trade:
  assumes ok: "ledger_ok s" and px: "case px of None \<Rightarrow> True | Some p \<Rightarrow> 0 \<le> p"
  shows "ledger_ok (snd (execute_trade tid px s))"
proof (cases "map_of (trades s) tid")
  case None
  with ok show ?thesis by (simp add: execute_trade_def)
next
  case (Some trade)
  from ok have tr: "0 < t_quantity trade" "0 \<le> t_price trade"
    using list_all_map_of [OF _ Some, of "\<lambda>t. 0 < t_quantity t \<and> 0 \<le> t_price t"]
    by (simp_all add: ledger_ok_def)
  define P where "P = price_or px (t_price trade)"
  have P: "0 \<le> P" unfolding P_def using tr(2) px by (rule price_or_nonneg)
  from ok have pos: "list_all (\<lambda>p. 0 \<le> p_quantity p) (map snd (positions s))"
    and tra: "list_all (\<lambda>t. 0 < t_quantity t \<and> 0 \<le> t_price t) (map snd (trades s))"
    and bal: "0 \<le> balance s"
    by (simp_all add: ledger_ok_def)
  have newtrade: "list_all (\<lambda>t. 0 < t_quantity t \<and> 0 \<le> t_price t)
      (map snd (AList.update tid (trade\<lparr>t_status := EXECUTED, t_price := P\<rparr>) (trades s)))"
    using tra tr P by (simp add: list_all_update)
  have buy: "list_all (\<lambda>p. 0 \<le> p_quantity p)
      (map snd (positions (update_position (t_symbol trade) (t_quantity trade) P s')))"
    if "positions s' = positions s" for s'
  proof (rule positions_update_position_ok)
    show "list_all (\<lambda>p. 0 \<le> p_quantity p) (map snd (positions s'))"
      using that pos by simp
    show "case map_of (positions s') (t_symbol trade) of None \<Rightarrow> 0 \<le> t_quantity trade
        | Some pos \<Rightarrow> 0 \<le> p_quantity pos + t_quantity trade"
      using list_all_map_of [OF pos, of "t_symbol trade"] tr(1) that
      by (auto split: option.splits)
  qed
  have sell: "list_all (\<lambda>p. 0 \<le> p_quantity p)
      (map snd (positions (update_position (t_symbol trade) (- t_quantity trade) P s')))"
    if "positions s' = positions s"
      and "has_sufficient_position (t_symbol trade) (t_quantity trade) s" for s'
  proof (rule positions_update_position_ok)
    show "list_all (\<lambda>p. 0 \<le> p_quantity p) (map snd (positions s'))"
      using that pos by simp
    show "case map_of (positions s') (t_symbol trade) of None \<Rightarrow> 0 \<le> - t_quantity trade
        | Some pos \<Rightarrow> 0 \<le> p_quantity pos + - t_quantity trade"
      using that by (auto simp add: has_sufficient_position_def split: option.splits)
  qed
  have cost: "0 \<le> P * t_quantity trade" using P tr(1) by simp
  show ?thesis
    using Some bal pos tra newtrade buy sell cost
    by (simp add: execute_trade_def Let_def ledger_ok_def P_def [symmetric])
qed

lemma ledger_ok_apply_call: "ledger_ok s \<Longrightarrow> call_ok c \<Longrightarrow> ledger_ok (apply_call c s)"
proof (induction c s rule: apply_call.induct)
  case (3 trade_id execution_price s)
  then show ?case
    by (cases execution_price) (simp_all add: ledger_ok_execute_trade)
qed (simp_all add: ledger_ok_add_funds ledger_ok_place_trade ledger_ok_cancel_trade)

lemma ledger_ok_run: "ledger_ok s \<Longrightarrow> list_all call_ok cs \<Longrightarrow> ledger_ok (run cs s)"
  by (induction cs arbitrary: s) (simp_all add: ledger_ok_apply_call)

subsection \<open>When a settlement fails and what it does when it succeeds\<close>

lemma not_BUY: "tt \<noteq> BUY \<longleftrightarrow> tt = SELL"
  by (cases tt) simp_all

lemma execute_trade_fails_iff:
  "\<not> fst (execute_trade tid px s) \<longleftrightarrow>
     (case map_of (trades s) tid of
        None \<Rightarrow> True
      | Some trade \<Rightarrow>
          t_status trade \<noteq> PENDING
          \<or> (t_trade_type trade = BUY
              \<and> balance s < price_or px (t_price trade) * t_quantity trade)
          \<or> (t_trade_type trade = SELL
              \<and> (case get_position (t_symbol trade) s of
                    None \<Rightarrow> True
                  | Some pos \<Rightarrow> p_quantity pos < t_quantity trade)))"
  by (cases "map_of (trades s) tid")
    (auto simp add: execute_trade_def Let_def has_sufficient_position_def get_position_def
      not_BUY split: option.splits)

lemma execute_trade_failure_unchanged:
  "\<not> fst (execute_trade tid px s) \<Longrightarrow> snd (execute_trade tid px s) = s"
  by (auto simp add: execute_trade_def Let_def split: option.splits if_splits)

lemma execute_trade_success:
  assumes "fst (execute_trade tid px s)" and "map_of (trades s) tid = Some trade"
  shows "snd (execute_trade tid px s) =
     (update_position (t_symbol trade)
        (signed_quantity trade) (price_or px (t_price trade))
        (s\<lparr>balance := balance s
             + (if t_trade_type trade = BUY then - 1 else 1)
               * (price_or px (t_price trade) * t_quantity trade)\<rparr>))
     \<lparr>trades := AList.update tid
        (trade\<lparr>t_status := EXECUTED, t_price := price_or px (t_price trade)\<rparr>) (trades s)\<rparr>"
  using assms
  by (auto simp add: execute_trade_def Let_def signed_quantity_def split: if_splits)

subsection \<open>Positions and executed trades when ids are fresh\<close>

lemma sum_filter_update:
  "sum_list (map f (filter Q (map snd (AList.update k v al))))
     = sum_list (map f (filter Q (map snd al)))
       - (case map_of al k of None \<Rightarrow> 0 | Some old \<Rightarrow> if Q old then f old else 0)
       + (if Q v then (f v :: real) else 0)"
  by (induction al) auto

lemma executed_quantity_update:
  "executed_quantity symbol (s\<lparr>trades := AList.update k v (trades s)\<rparr>)
     = executed_quantity symbol s
       - (case map_of (trades s) k of
            None \<Rightarrow> 0
          | Some old \<Rightarrow> if executed_on symbol old then signed_quantity old else 0)
       + (if executed_on symbol v then signed_quantity v else 0)"
  by (simp add: executed_quantity_def sum_filter_update)

lemma filter_update_present:
  "map_of al k = Some old \<Longrightarrow> \<not> P v \<Longrightarrow> filter P (map snd al) = []
     \<Longrightarrow> filter P (map snd (AList.update k v al)) = []"
  by (induction al) (auto split: if_splits)

lemma filter_update_absent:
  "\<not> P v \<Longrightarrow> filter P (map snd al) = []
     \<Longrightarrow> filter P (map snd (AList.update k v al)) = []"
  by (induction al) (auto split: if_splits)


lemma executed_quantity_no_trades:
  "filter (executed_on symbol) (map snd (trades s)) = [] \<Longrightarrow> executed_quantity symbol s = 0"
  by (simp add: executed_quantity_def)

lemma positions_match_inert_update:
  assumes pm: "positions_match symbol s"
    and old: "case map_of (trades s) k of None \<Rightarrow> True | Some old \<Rightarrow> \<not> executed_on symbol old"
    and new: "\<not> executed_on symbol v"
  shows "positions_match symbol (s\<lparr>trades := AList.update k v (trades s)\<rparr>)"
proof -
  have q: "executed_quantity symbol (s\<lparr>trades := AList.update k v (trades s)\<rparr>)
      = executed_quantity symbol s"
    using old new by (simp add: executed_quantity_update split: option.splits)
  show ?thesis
    using pm new q
    by (auto simp add: positions_match_def get_position_def filter_update_absent
        split: option.splits)
qed

lemma positions_match_add_funds:
  "positions_match symbol s \<Longrightarrow> positions_match symbol (add_funds amount s)"
  by (auto simp add: positions_match_def add_funds_def get_position_def executed_quantity_def
      split: option.splits)

lemma positions_match_place_trade:
  assumes "positions_match symbol s"
    and "map_of (trades s) (fst (place_trade order_symbol tt q p txt now s)) = None"
  shows "positions_match symbol (snd (place_trade order_symbol tt q p txt now s))"
  using positions_match_inert_update [OF assms(1), of
      "fst (place_trade order_symbol tt q p txt now s)"
      "\<lparr>t_id = fst (place_trade order_symbol tt q p txt now s), t_symbol = order_symbol, t_trade_type = tt,
         t_quantity = q, t_price = p, t_timestamp = now, t_status = PENDING\<rparr>"] assms(2)
  by (simp add: place_trade_def Let_def executed_on_def)

lemma positions_match_cancel_trade:
  assumes "positions_match symbol s"
  shows "positions_match symbol (snd (cancel_trade tid s))"
proof (cases "map_of (trades s) tid")
  case None
  with assms show ?thesis by (simp add: cancel_trade_def)
next
  case (Some trade)
  show ?thesis
  proof (cases "t_status trade = PENDING")
    case True
    with Some positions_match_inert_update [OF assms, of tid "trade\<lparr>t_status := CANCELLED\<rparr>"]
    show ?thesis by (simp add: cancel_trade_def executed_on_def)
  next
    case False
    with Some assms show ?thesis by (simp add: cancel_trade_def)
  qed
qed

lemma positions_match_execute_trade:
  assumes pm: "positions_match symbol s"
  shows "positions_match symbol (snd (execute_trade tid px s))"
proof (cases "fst (execute_trade tid px s)")
  case False
  with pm show ?thesis by (simp add: execute_trade_failure_unchanged)
next
  case True
  then have pend: "status_of tid s = Some PENDING" by (rule execute_trade_success_pending)
  then obtain trade where tr: "map_of (trades s) tid = Some trade"
    and st: "t_status trade = PENDING"
    by (auto simp add: status_of_def)
  define P where "P = price_or px (t_price trade)"
  define trade' where "trade' = trade\<lparr>t_status := EXECUTED, t_price := P\<rparr>"
  define pos where "pos = (case map_of (positions s) (t_symbol trade) of
      None \<Rightarrow> \<lparr>p_symbol = t_symbol trade, p_quantity = 0, p_avg_price = 0, p_market_value = 0\<rparr>
    | Some p \<Rightarrow> p)"
  have tr': "trades (snd (execute_trade tid px s)) = AList.update tid trade' (trades s)"
    and po': "positions (snd (execute_trade tid px s))
      = AList.update (t_symbol trade)
          (update_position_record pos (signed_quantity trade) P) (positions s)"
    using execute_trade_success [OF True tr]
    by (simp_all add: P_def trade'_def pos_def update_position_def Let_def)
  have old0: "\<not> executed_on symbol trade" using st by (simp add: executed_on_def)
  show ?thesis
  proof (cases "symbol = t_symbol trade")
    case False
    then have "\<not> executed_on symbol trade'" by (simp add: executed_on_def trade'_def)
    with positions_match_inert_update [OF pm, of tid trade'] tr old0
    have "positions_match symbol (s\<lparr>trades := AList.update tid trade' (trades s)\<rparr>)" by simp
    then show ?thesis
      using False tr' po'
      by (auto simp add: positions_match_def get_position_def update_conv'
          executed_quantity_def split: option.splits)
  next
    case same: True
    have new: "executed_on symbol trade'" using same by (simp add: executed_on_def trade'_def)
    have sq: "signed_quantity trade' = signed_quantity trade"
      by (simp add: signed_quantity_def trade'_def)
    have q: "executed_quantity symbol (snd (execute_trade tid px s))
        = executed_quantity symbol s + signed_quantity trade"
      using tr old0 new sq executed_quantity_update [where symbol = symbol and s = s and k = tid and v = trade']
      by (simp add: executed_quantity_def tr')
    have prior: "p_quantity pos = executed_quantity symbol s"
      using pm same
      by (auto simp add: pos_def positions_match_def get_position_def
          executed_quantity_no_trades split: option.splits)
    show ?thesis
      using same q prior
      by (simp add: positions_match_def get_position_def po' update_conv')
  qed
qed

lemma positions_match_run:
  "positions_match symbol s \<Longrightarrow> fresh_ids cs s \<Longrightarrow> positions_match symbol (run cs s)"
proof (induction cs arbitrary: s)
  case Nil
  then show ?case by simp
next
  case (Cons c cs)
  then show ?case
    by (cases c)
      (simp_all add: positions_match_add_funds positions_match_place_trade
        positions_match_execute_trade positions_match_cancel_trade)
qed

lemma positions_match_init: "positions_match symbol init"
  by (simp add: positions_match_def init_def get_position_def)

lemma position_is_executed_sum_when_ids_fresh:
  "fresh_ids cs init \<Longrightarrow> positions_match symbol (run cs init)"
  using positions_match_init by (rule positions_match_run)

section \<open>The claims\<close>

text \<open>
  The concrete ledgers below hold one order: \<^verbatim>\<open>place_trade("FOO", BUY, 10, 5)\<close> at the
  clock reading 1700000000.5, whose id is \<open>FOO_buy_1700000000.5\<close>.
\<close>

lemmas ledger_defs =
  init_def add_funds_def place_trade_def execute_trade_def cancel_trade_def
  update_position_def update_position_record_def has_sufficient_position_def price_or_def
  get_position_def get_trade_history_def executed_quantity_def executed_on_def
  signed_quantity_def status_of_def Let_def

text \<open>
  C1. \<^verbatim>\<open>settle\<close> fails without changing anything exactly when the id is unknown, the trade
  is not PENDING, a BUY costs more than the balance at the settlement price, or a SELL
  asks for more than the position holds; otherwise it succeeds and records the settlement
  price, which is the requested price only if none is supplied.
  The code departs from this at the supplied price 0: \<^verbatim>\<open>execution_price or trade.price\<close>
  takes the order's price. With balance 0 the cost at price 0 is 0 and the claim lets the
  BUY succeed; the code refuses it, since it charges 50. With balance 100 the code
  succeeds, takes 50 from the balance and records the price 5, where the claim has the
  balance stay 100 and the price 0 recorded. At the price the code settles with
  (\<open>price_or\<close>), the four conditions are the code's: \<open>execute_trade_fails_iff\<close>,
  \<open>execute_trade_failure_unchanged\<close> and \<open>execute_trade_success\<close>.
\<close>

theorem settle_at_price_zero_charges_order_price:
  "execute_trade ''FOO_buy_1700000000.5'' (Some 0)
     (snd (place_trade ''FOO'' BUY 10 5 ''1700000000.5'' 1700000000500000 init))
   = (False, snd (place_trade ''FOO'' BUY 10 5 ''1700000000.5'' 1700000000500000 init))
  \<and> execute_trade ''FOO_buy_1700000000.5'' (Some 0)
     (snd (place_trade ''FOO'' BUY 10 5 ''1700000000.5'' 1700000000500000
        (add_funds 100 init)))
   = (True,
      \<lparr>trades = [(''FOO_buy_1700000000.5'',
          \<lparr>t_id = ''FOO_buy_1700000000.5'', t_symbol = ''FOO'', t_trade_type = BUY,
           t_quantity = 10, t_price = 5, t_timestamp = 1700000000500000,
           t_status = EXECUTED\<rparr>)],
       positions = [(''FOO'', \<lparr>p_symbol = ''FOO'', p_quantity = 10, p_avg_price = 5,
           p_market_value = 50\<rparr>)],
       balance = 50\<rparr>)"
  by (simp add: ledger_defs)

text \<open>
  C2. Over any sequence of settle and cancel calls the status of a trade changes at most
  once, and only from PENDING to EXECUTED by a settle that succeeds or from PENDING to
  CANCELLED by a cancel; once the trade has left PENDING every settle or cancel on its id
  returns failure and leaves the ledger as it is; cancelling a PENDING trade twice
  succeeds the first time, leaves the status CANCELLED, and fails the second time.
\<close>

theorem status_changes_at_most_once:
  "(settle_or_cancel c \<and> status_of tid (apply_call c s) \<noteq> status_of tid s \<longrightarrow>
      status_of tid s = Some PENDING
      \<and> ((\<exists>px. c = Settle tid px \<and> fst (execute_trade tid px s)
             \<and> status_of tid (apply_call c s) = Some EXECUTED)
         \<or> (c = Cancel tid \<and> fst (cancel_trade tid s)
             \<and> status_of tid (apply_call c s) = Some CANCELLED)))
   \<and> (list_all settle_or_cancel cs \<longrightarrow> transitions tid cs s \<le> 1)
   \<and> (list_all settle_or_cancel cs \<and> status_of tid s' \<noteq> Some PENDING \<longrightarrow>
        status_of tid (run cs s') = status_of tid s'
        \<and> execute_trade tid px (run cs s') = (False, run cs s')
        \<and> cancel_trade tid (run cs s') = (False, run cs s'))
   \<and> (status_of tid s = Some PENDING \<longrightarrow>
        fst (cancel_trade tid s)
        \<and> status_of tid (snd (cancel_trade tid s)) = Some CANCELLED
        \<and> cancel_trade tid (snd (cancel_trade tid s)) = (False, snd (cancel_trade tid s)))"
proof (intro conjI impI)
  assume "settle_or_cancel c \<and> status_of tid (apply_call c s) \<noteq> status_of tid s"
  then show "status_of tid s = Some PENDING"
    and "(\<exists>px. c = Settle tid px \<and> fst (execute_trade tid px s)
             \<and> status_of tid (apply_call c s) = Some EXECUTED)
         \<or> (c = Cancel tid \<and> fst (cancel_trade tid s)
             \<and> status_of tid (apply_call c s) = Some CANCELLED)"
    using step_status [of c tid s] by auto
next
  assume "list_all settle_or_cancel cs"
  then show "transitions tid cs s \<le> 1" by (rule transitions_le_1)
next
  assume a: "list_all settle_or_cancel cs \<and> status_of tid s' \<noteq> Some PENDING"
  then have st: "status_of tid (run cs s') = status_of tid s'"
    using run_terminal [of tid s' cs] by simp
  then show "status_of tid (run cs s') = status_of tid s'" .
  from st a have np: "status_of tid (run cs s') \<noteq> Some PENDING" by simp
  then show "execute_trade tid px (run cs s') = (False, run cs s')"
    by (rule execute_trade_not_pending)
  from np show "cancel_trade tid (run cs s') = (False, run cs s')"
    by (rule cancel_trade_not_pending)
next
  assume p: "status_of tid s = Some PENDING"
  then show c1: "fst (cancel_trade tid s)" by (simp add: cancel_trade_success_iff)
  then show c2: "status_of tid (snd (cancel_trade tid s)) = Some CANCELLED"
    by (simp add: cancel_trade_status)
  then show "cancel_trade tid (snd (cancel_trade tid s)) = (False, snd (cancel_trade tid s))"
    by (simp add: cancel_trade_not_pending)
qed

theorem status_changes_at_most_once_witness:
  "status_of ''FOO_buy_1700000000.5''
      (snd (place_trade ''FOO'' BUY 10 5 ''1700000000.5'' 1700000000500000 init))
     = Some PENDING
   \<and> status_of ''FOO_buy_1700000000.5''
      (apply_call (Cancel ''FOO_buy_1700000000.5'')
        (snd (place_trade ''FOO'' BUY 10 5 ''1700000000.5'' 1700000000500000 init)))
     = Some CANCELLED
   \<and> transitions ''FOO_buy_1700000000.5''
       [Cancel ''FOO_buy_1700000000.5'', Settle ''FOO_buy_1700000000.5'' None,
        Cancel ''FOO_buy_1700000000.5'']
       (snd (place_trade ''FOO'' BUY 10 5 ''1700000000.5'' 1700000000500000 init)) \<le> 1
   \<and> execute_trade ''FOO_buy_1700000000.5'' None
       (run [Cancel ''FOO_buy_1700000000.5'', Settle ''FOO_buy_1700000000.5'' None,
             Cancel ''FOO_buy_1700000000.5'']
         (snd (cancel_trade ''FOO_buy_1700000000.5''
           (snd (place_trade ''FOO'' BUY 10 5 ''1700000000.5'' 1700000000500000 init)))))
     = (False,
        snd (cancel_trade ''FOO_buy_1700000000.5''
           (snd (place_trade ''FOO'' BUY 10 5 ''1700000000.5'' 1700000000500000 init))))
   \<and> cancel_trade ''FOO_buy_1700000000.5''
       (snd (cancel_trade ''FOO_buy_1700000000.5''
          (snd (place_trade ''FOO'' BUY 10 5 ''1700000000.5'' 1700000000500000 init))))
     = (False,
        snd (cancel_trade ''FOO_buy_1700000000.5''
          (snd (place_trade ''FOO'' BUY 10 5 ''1700000000.5'' 1700000000500000 init))))"
  using status_changes_at_most_once
    [of "Cancel ''FOO_buy_1700000000.5''" "''FOO_buy_1700000000.5''"
        "snd (place_trade ''FOO'' BUY 10 5 ''1700000000.5'' 1700000000500000 init)"
        "[Cancel ''FOO_buy_1700000000.5'', Settle ''FOO_buy_1700000000.5'' None,
          Cancel ''FOO_buy_1700000000.5'']"
        "snd (cancel_trade ''FOO_buy_1700000000.5''
          (snd (place_trade ''FOO'' BUY 10 5 ''1700000000.5'' 1700000000500000 init)))"
        None]
  by (simp add: ledger_defs)

lemmas float_defs =
  finit_def fadd_funds_def fplace_trade_def fexecute_trade_def fupdate_position_def
  fupdate_position_record_def fhas_sufficient_position_def fprice_or_def to_float_def
  fsub_def fge_def Let_def

text \<open>
  C3. In every ledger reached by \<^verbatim>\<open>add_funds\<close>, \<^verbatim>\<open>place_trade\<close>, \<^verbatim>\<open>execute_trade\<close> and
  \<^verbatim>\<open>cancel_trade\<close> calls with positive quantities and prices that are not negative, the
  balance and every position's quantity are at or above 0: a BUY that would take the
  balance below 0 fails, and so does a SELL of more than is held.
  The code breaks this where its floats overflow. \<^verbatim>\<open>add_funds(2.0**1023)\<close> twice makes
  the balance infinite (\<open>2^1024\<close> is beyond binary64). A BUY of \<open>2^600\<close> units at \<open>2^600\<close>
  costs \<open>2^1200\<close>, infinite again; the guard \<^verbatim>\<open>inf < inf\<close> is false, the settlement goes
  through and leaves the balance \<^verbatim>\<open>inf - inf\<close>, which is NaN and not at or above 0. All
  four inputs are powers of two, finite, positive and exact in binary64. On the
  real-valued reading, where nothing overflows, the ledger stays in order
  (\<open>ledger_ok_run\<close>).
\<close>

theorem settlement_on_overflow_leaves_balance_nan:
  "fbalance (fadd_funds (Finite (2 ^ 1023)) (fadd_funds (Finite (2 ^ 1023)) finit)) = PosInf
   \<and> fst (fexecute_trade ''FOO_buy_1700000000.5'' None
       (snd (fplace_trade ''FOO'' BUY (Finite (2 ^ 600)) (Finite (2 ^ 600)) ''1700000000.5''
          1700000000500000
          (fadd_funds (Finite (2 ^ 1023)) (fadd_funds (Finite (2 ^ 1023)) finit)))))
   \<and> fbalance (snd (fexecute_trade ''FOO_buy_1700000000.5'' None
       (snd (fplace_trade ''FOO'' BUY (Finite (2 ^ 600)) (Finite (2 ^ 600)) ''1700000000.5''
          1700000000500000
          (fadd_funds (Finite (2 ^ 1023)) (fadd_funds (Finite (2 ^ 1023)) finit))))))
     = NaN
   \<and> \<not> fge NaN (Finite 0)"
  by (simp add: float_defs)

text \<open>
  C4. In every ledger reached by \<^verbatim>\<open>add_funds\<close>, \<^verbatim>\<open>place_trade\<close>, \<^verbatim>\<open>execute_trade\<close> and
  \<^verbatim>\<open>cancel_trade\<close> calls, the quantity of a position is the signed sum of the quantities
  of the EXECUTED trades on its symbol.
  The code breaks this when \<^verbatim>\<open>place_trade\<close> issues an id twice: after funding 100,
  buying 10 FOO at 5 and settling, a second \<^verbatim>\<open>place_trade("FOO", BUY, 10, 5)\<close> at the same
  clock reading replaces the EXECUTED trade by a PENDING one. The position still holds 10
  and the EXECUTED trades on FOO sum to 0. A run in which every id is fresh keeps the
  positions equal to the sums: \<open>position_is_executed_sum_when_ids_fresh\<close>.
\<close>

theorem position_outlives_overwritten_trade:
  "get_position ''FOO''
     (run [AddFunds 100,
           RecordOrder ''FOO'' BUY 10 5 ''1700000000.5'' 1700000000500000,
           Settle ''FOO_buy_1700000000.5'' None,
           RecordOrder ''FOO'' BUY 10 5 ''1700000000.5'' 1700000000500001] init)
    = Some \<lparr>p_symbol = ''FOO'', p_quantity = 10, p_avg_price = 5, p_market_value = 50\<rparr>
   \<and> executed_quantity ''FOO''
     (run [AddFunds 100,
           RecordOrder ''FOO'' BUY 10 5 ''1700000000.5'' 1700000000500000,
           Settle ''FOO_buy_1700000000.5'' None,
           RecordOrder ''FOO'' BUY 10 5 ''1700000000.5'' 1700000000500001] init) = 0"
  by (simp add: ledger_defs)



text \<open>
  C6. Every \<^verbatim>\<open>place_trade\<close> call returns an id that no other call returns, also when
  symbol, side and creation time agree, and never overwrites a recorded trade.
  The code builds the id from the symbol, the side and the clock reading alone: two calls
  that agree on the three return the same id, the second trade takes the place of the
  first under that id, and the dictionary gets no new key.
\<close>

theorem place_trade_same_clock_same_id:
  "fst (place_trade symbol side q2 p2 now_text now2
          (snd (place_trade symbol side q1 p1 now_text now1 s)))
     = fst (place_trade symbol side q1 p1 now_text now1 s)
   \<and> map_of (trades (snd (place_trade symbol side q2 p2 now_text now2
          (snd (place_trade symbol side q1 p1 now_text now1 s)))))
        (fst (place_trade symbol side q1 p1 now_text now1 s))
     = Some \<lparr>t_id = fst (place_trade symbol side q1 p1 now_text now1 s), t_symbol = symbol,
          t_trade_type = side, t_quantity = q2, t_price = p2, t_timestamp = now2,
          t_status = PENDING\<rparr>
   \<and> map fst (trades (snd (place_trade symbol side q2 p2 now_text now2
          (snd (place_trade symbol side q1 p1 now_text now1 s)))))
     = map fst (trades (snd (place_trade symbol side q1 p1 now_text now1 s)))"
  by (simp add: place_trade_def Let_def update_conv' update_keys)

lemma add_funds_ignores_nonpositive: "amount \<le> 0 \<Longrightarrow> add_funds amount s = s"
  by (simp add: add_funds_def)

text \<open>
  C7. Input out of range is rejected with no state change: for a quantity that is not
  positive \<^verbatim>\<open>place_trade\<close> creates no trade and issues no id, and for an amount that is not
  positive \<^verbatim>\<open>add_funds\<close> leaves the balance unchanged.
  \<^verbatim>\<open>add_funds\<close> has the check (\<open>add_funds_ignores_nonpositive\<close>); \<^verbatim>\<open>place_trade\<close> has
  none. On the empty ledger \<^verbatim>\<open>place_trade("FOO", BUY, -10, 5)\<close> issues an id and records
  the trade, and settling it passes the funds guard, since the cost is \<open>-50\<close>: the balance
  rises from 0 to 50 and the position holds \<open>-10\<close>.
\<close>

theorem place_trade_records_negative_quantity:
  "fst (place_trade ''FOO'' BUY (- 10) 5 ''1700000000.5'' 1700000000500000 init)
     = ''FOO_buy_1700000000.5''
   \<and> trades (snd (place_trade ''FOO'' BUY (- 10) 5 ''1700000000.5'' 1700000000500000 init))
     = [(''FOO_buy_1700000000.5'',
         \<lparr>t_id = ''FOO_buy_1700000000.5'', t_symbol = ''FOO'', t_trade_type = BUY,
          t_quantity = - 10, t_price = 5, t_timestamp = 1700000000500000,
          t_status = PENDING\<rparr>)]
   \<and> execute_trade ''FOO_buy_1700000000.5'' None
       (snd (place_trade ''FOO'' BUY (- 10) 5 ''1700000000.5'' 1700000000500000 init))
     = (True,
        \<lparr>trades = [(''FOO_buy_1700000000.5'',
           \<lparr>t_id = ''FOO_buy_1700000000.5'', t_symbol = ''FOO'', t_trade_type = BUY,
            t_quantity = - 10, t_price = 5, t_timestamp = 1700000000500000,
            t_status = EXECUTED\<rparr>)],
         positions = [(''FOO'', \<lparr>p_symbol = ''FOO'', p_quantity = - 10, p_avg_price = 5,
           p_market_value = - 50\<rparr>)],
         balance = 50\<rparr>)"
  by (simp add: ledger_defs)

text \<open>
  C8. On a feed event with no matching PENDING order (BUY 4 BAR at 2) the pipeline records
  the order and settles it at the event's price, so that the history holds one EXECUTED
  trade for BAR.
  The code never reaches the ledger: \<^verbatim>\<open>PumpPortalClient\<close> has no \<^verbatim>\<open>listen_for_trades\<close> (and
  \<^verbatim>\<open>TradeManager\<close> no \<^verbatim>\<open>process_realtime_trade\<close>), so the listener logs an
  \<^verbatim>\<open>AttributeError\<close> and returns, whatever the feed would deliver. On a ledger funded
  with 100 the history stays empty.
\<close>

theorem listener_stops_at_attribute_error:
  "start_websocket_listener listen app
     = app\<lparr>error_log :=
         error_log app @ [AttributeError ''PumpPortalClient'' ''listen_for_trades'']\<rparr>
   \<and> get_trade_history (trade_manager (start_websocket_listener listen
        \<lparr>trade_manager = add_funds 100 init, error_log = []\<rparr>)) = []"
  by (simp add: start_websocket_listener_def getattr_def PumpPortalClient_attributes_def
      ledger_defs)

text \<open>
  C10. Settling with the supplied price 0 is settling with no price supplied. For a
  PENDING trade that settles, the trade keeps its requested price as the recorded price,
  the balance moves by requested price times quantity, and the position is updated at
  the requested price.
\<close>

theorem execute_trade_price_zero_is_no_price:
  assumes "map_of (trades s) tid = Some trade" and "t_status trade = PENDING"
  shows "execute_trade tid (Some 0) s = execute_trade tid None s
    \<and> (fst (execute_trade tid (Some 0) s) \<longrightarrow>
         map_of (trades (snd (execute_trade tid (Some 0) s))) tid
           = Some (trade\<lparr>t_status := EXECUTED\<rparr>)
       \<and> balance (snd (execute_trade tid (Some 0) s))
           = (if t_trade_type trade = BUY
              then balance s - t_price trade * t_quantity trade
              else balance s + t_price trade * t_quantity trade)
       \<and> positions (snd (execute_trade tid (Some 0) s))
           = positions (update_position (t_symbol trade)
               (if t_trade_type trade = BUY then t_quantity trade else - t_quantity trade)
               (t_price trade) s))"
  using assms
  by (auto simp add: execute_trade_def price_or_def update_position_def Let_def update_conv')

theorem execute_trade_price_zero_is_no_price_witness:
  "map_of (trades (snd (place_trade ''FOO'' BUY 10 5 ''1700000000.5'' 1700000000500000
        (add_funds 100 init)))) ''FOO_buy_1700000000.5''
     = Some \<lparr>t_id = ''FOO_buy_1700000000.5'', t_symbol = ''FOO'', t_trade_type = BUY,
           t_quantity = 10, t_price = 5, t_timestamp = 1700000000500000,
           t_status = PENDING\<rparr>
   \<and> fst (execute_trade ''FOO_buy_1700000000.5'' (Some 0)
        (snd (place_trade ''FOO'' BUY 10 5 ''1700000000.5'' 1700000000500000
          (add_funds 100 init))))
   \<and> balance (snd (execute_trade ''FOO_buy_1700000000.5'' (Some 0)
        (snd (place_trade ''FOO'' BUY 10 5 ''1700000000.5'' 1700000000500000
          (add_funds 100 init))))) = 50"
  using execute_trade_price_zero_is_no_price
    [of "snd (place_trade ''FOO'' BUY 10 5 ''1700000000.5'' 1700000000500000
          (add_funds 100 init))"
        "''FOO_buy_1700000000.5''"
        "\<lparr>t_id = ''FOO_buy_1700000000.5'', t_symbol = ''FOO'', t_trade_type = BUY,
           t_quantity = 10, t_price = 5, t_timestamp = 1700000000500000,
           t_status = PENDING\<rparr>"]
  by (simp add: ledger_defs)

end
